theory Spec2Isabelle
  imports Complex_Main "HOL-Library.Monad_Syntax"
begin

section \<open>Geo-image fixture generator: grid sampler and DMS codec\<close>

text \<open>
  The development embeds the two pure functions of \<^verbatim>\<open>generate_geo_images.py\<close> and
  \<^verbatim>\<open>generate_geo_images_map.py\<close> (the two files define them identically) and the
  GPS-tag assignments of \<^verbatim>\<open>create_image\<close>.

  Numbers. A Python \<^verbatim>\<open>float\<close> is modelled as a \<^typ>\<open>real\<close>: arithmetic is exact, and
  the rounding of IEEE 754 doubles is not part of the model. Every real is finite, so the
  \<^verbatim>\<open>OverflowError\<close> and \<^verbatim>\<open>ValueError\<close> that \<^verbatim>\<open>int()\<close> raises on an infinity or a NaN
  have no counterpart. A Python \<^verbatim>\<open>int\<close> is an \<^typ>\<open>int\<close>; the argument \<^verbatim>\<open>step_km\<close>,
  an \<^verbatim>\<open>int\<close> or a \<^verbatim>\<open>float\<close> that is only ever divided, is a real.

  Two consequences of exact arithmetic are worth keeping in mind when a result is read
  back on doubles. The values of a grid agree with Python's up to rounding only, and a
  comparison that is an equality in the model can fall on either side there. And
  \<open>cos (radians 90)\<close> is exactly 0 in the model, where the sampler's division raises,
  while \<^verbatim>\<open>math.cos(math.radians(90))\<close> is a small positive double.
\<close>

subsection \<open>Coordinate to DMS codec\<close>

text \<open>Python's \<^verbatim>\<open>int(x)\<close> on a float truncates towards zero.\<close>

definition py_int :: "real \<Rightarrow> int" where
  "py_int x = (if x < 0 then \<lceil>x\<rceil> else \<lfloor>x\<rfloor>)"

text \<open>
  \<^verbatim>\<open>decimal_to_dms\<close>, statement by statement. The local \<^verbatim>\<open>sign\<close> is computed and never
  used: the line \<^verbatim>\<open>degrees *= sign\<close> is commented out in the source.
\<close>

definition decimal_to_dms :: "real \<Rightarrow> real \<times> real \<times> real" where
  "decimal_to_dms decimal_degree =
     (let sign = (if decimal_degree < 0 then - 1 else 1 :: int);
          decimal_degree = \<bar>decimal_degree\<bar>;
          degrees = py_int decimal_degree;
          minutes_decimal = (decimal_degree - real_of_int degrees) * 60;
          minutes = py_int minutes_decimal;
          seconds = (minutes_decimal - real_of_int minutes) * 60;
          seconds = py_int seconds
      in (real_of_int degrees, real_of_int minutes, real_of_int seconds))"


subsection \<open>GPS tags written by the emitter\<close>

text \<open>
  \<^verbatim>\<open>create_image\<close> renders and saves a picture, re-opens the file as an
  \<^verbatim>\<open>exif.Image\<close> and assigns four GPS attributes before writing the file back. The
  rendering and the file system are outside the model; the metadata block is a record
  whose four GPS tags are absent (\<open>None\<close>) until assigned, and whose remaining tags
  travel in the record's extension.
\<close>

record exif_img =
  gps_latitude :: "(real \<times> real \<times> real) option"
  gps_latitude_ref :: "string option"
  gps_longitude :: "(real \<times> real \<times> real) option"
  gps_longitude_ref :: "string option"

text \<open>The four assignments of \<^verbatim>\<open>create_image\<close>, in the order of the source.\<close>

definition create_image :: "real \<Rightarrow> real \<Rightarrow> 'a exif_img_scheme \<Rightarrow> 'a exif_img_scheme" where
  "create_image lat lon exif_img =
     exif_img
       \<lparr>gps_latitude := Some (decimal_to_dms lat),
        gps_latitude_ref := Some (if lat \<ge> 0 then ''N'' else ''S''),
        gps_longitude := Some (decimal_to_dms lon),
        gps_longitude_ref := Some (if lon \<ge> 0 then ''E'' else ''W'')\<rparr>"

subsection \<open>Grid sampler\<close>

text \<open>
  The two nested \<^verbatim>\<open>while\<close> loops of \<^verbatim>\<open>generate_coordinates\<close>. Either loop runs
  forever when its step does not move the counter past the bound, so each is a partial
  function: \<open>None\<close> stands for a loop that never returns. The loops use nothing of
  their numbers but \<open>\<le>\<close> and \<open>+\<close>, and are defined for any type that has them; the
  list \<^verbatim>\<open>coordinates\<close> is threaded through as the state the loops append to.
\<close>

partial_function (option) lon_loop ::
  "'a::{ord,plus} \<Rightarrow> 'a \<Rightarrow> 'a \<Rightarrow> 'a \<Rightarrow> ('a \<times> 'a) list \<Rightarrow> ('a \<times> 'a) list option" where
  "lon_loop lon_max lon_step lat lon coordinates =
     (if lon \<le> lon_max
      then lon_loop lon_max lon_step lat (lon + lon_step) (coordinates @ [(lat, lon)])
      else Some coordinates)"

declare lon_loop.simps [code]

partial_function (option) lat_loop ::
  "'a::{ord,plus} \<Rightarrow> 'a \<Rightarrow> 'a \<Rightarrow> 'a \<Rightarrow> 'a \<Rightarrow> 'a \<Rightarrow> ('a \<times> 'a) list \<Rightarrow> ('a \<times> 'a) list option" where
  "lat_loop lat_max lon_min lon_max lat_step lon_step lat coordinates =
     (if lat \<le> lat_max
      then do {
        coordinates' \<leftarrow> lon_loop lon_max lon_step lat lon_min coordinates;
        lat_loop lat_max lon_min lon_max lat_step lon_step (lat + lat_step) coordinates'
      }
      else Some coordinates)"

declare lat_loop.simps [code]

text \<open>\<^verbatim>\<open>math.radians\<close>.\<close>

definition radians :: "real \<Rightarrow> real" where
  "radians x = x * pi / 180"

text \<open>
  The float division that computes \<^verbatim>\<open>lon_step\<close> raises \<^verbatim>\<open>ZeroDivisionError\<close> when
  its divisor is zero; the division by the constant 111 cannot.
\<close>

datatype py_error = ZeroDivisionError

definition generate_coordinates ::
  "real \<Rightarrow> real \<Rightarrow> real \<Rightarrow> real \<Rightarrow> real \<Rightarrow> (py_error + (real \<times> real) list) option" where
  "generate_coordinates lat_min lat_max lon_min lon_max step_km =
     (let km_per_degree = 111;
          lat_step = step_km / km_per_degree;
          divisor = km_per_degree * cos (radians lat_min)
      in if divisor = 0 then Some (Inl ZeroDivisionError)
         else
           let lon_step = step_km / divisor
           in map_option Inr
                (lat_loop lat_max lon_min lon_max lat_step lon_step lat_min []))"

subsection \<open>The closed form of the grid\<close>



section \<open>Properties of the codec\<close>

lemma py_int_nonneg: "0 \<le> x \<Longrightarrow> py_int x = \<lfloor>x\<rfloor>"
  by (simp add: py_int_def)

lemma frac60_bounds: "0 \<le> frac (x::real) * 60 \<and> frac x * 60 < 60"
  using frac_ge_0 [of x] frac_lt_1 [of x] by simp

lemma floor_frac60: "0 \<le> \<lfloor>frac (x::real) * 60\<rfloor> \<and> \<lfloor>frac x * 60\<rfloor> < 60"
  using frac60_bounds [of x] by (simp add: floor_less_iff)

text \<open>
  On the absolute value every \<^verbatim>\<open>int()\<close> of the function is a floor, and each
  difference is a fractional part.
\<close>

lemma decimal_to_dms_frac:
  "decimal_to_dms x =
    (real_of_int \<lfloor>\<bar>x\<bar>\<rfloor>,
     real_of_int \<lfloor>frac \<bar>x\<bar> * 60\<rfloor>,
     real_of_int \<lfloor>frac (frac \<bar>x\<bar> * 60) * 60\<rfloor>)"
proof -
  have a: "py_int \<bar>x\<bar> = \<lfloor>\<bar>x\<bar>\<rfloor>"
    by (simp add: py_int_nonneg)
  have b: "(\<bar>x\<bar> - real_of_int \<lfloor>\<bar>x\<bar>\<rfloor>) * 60 = frac \<bar>x\<bar> * 60"
    by (simp add: frac_def)
  have c: "py_int (frac \<bar>x\<bar> * 60) = \<lfloor>frac \<bar>x\<bar> * 60\<rfloor>"
    using frac60_bounds [of "\<bar>x\<bar>"] by (simp add: py_int_nonneg)
  have d: "(frac \<bar>x\<bar> * 60 - real_of_int \<lfloor>frac \<bar>x\<bar> * 60\<rfloor>) * 60
      = frac (frac \<bar>x\<bar> * 60) * 60"
    by (simp add: frac_def)
  have e: "py_int (frac (frac \<bar>x\<bar> * 60) * 60) = \<lfloor>frac (frac \<bar>x\<bar> * 60) * 60\<rfloor>"
    using frac60_bounds [of "frac \<bar>x\<bar> * 60"] by (simp add: py_int_nonneg)
  show ?thesis
    unfolding decimal_to_dms_def Let_def a b c d e ..
qed


lemma decimal_to_dms_nonneg:
  "case decimal_to_dms x of (degrees, minutes, seconds) \<Rightarrow>
     0 \<le> degrees \<and> 0 \<le> minutes \<and> 0 \<le> seconds"
  using floor_frac60 [of "\<bar>x\<bar>"] floor_frac60 [of "frac \<bar>x\<bar> * 60"]
  by (simp add: decimal_to_dms_frac)




text \<open>
  Claim C2: \<^verbatim>\<open>decimal_to_dms(0.0)\<close> is \<open>(0.0, 0.0, 0.0)\<close>, and
  \<^verbatim>\<open>decimal_to_dms(40.758896)\<close> has degrees 40, minutes 45 and seconds 32.
\<close>

theorem decimal_to_dms_examples:
  "decimal_to_dms 0 = (0, 0, 0) \<and> decimal_to_dms 40.758896 = (40, 45, 32)"
  by (simp add: decimal_to_dms_def Let_def py_int_def)

text \<open>
  Claim C3: for every input \<open>x\<close> the returned triple has degrees equal to the floor of
  \<open>\<bar>x\<bar>\<close>, minutes and seconds in the half-open interval from 0 to 60, and no negative
  component, whatever the sign of \<open>x\<close>.
\<close>

theorem decimal_to_dms_ranges:
  "decimal_to_dms x = (degrees, minutes, seconds) \<Longrightarrow>
     degrees = real_of_int \<lfloor>\<bar>x\<bar>\<rfloor> \<and> 0 \<le> degrees \<and>
     0 \<le> minutes \<and> minutes < 60 \<and> 0 \<le> seconds \<and> seconds < 60"
  using floor_frac60 [of "\<bar>x\<bar>"] floor_frac60 [of "frac \<bar>x\<bar> * 60"]
  by (auto simp: decimal_to_dms_frac)

theorem decimal_to_dms_ranges_witness:
  "decimal_to_dms (- 33.5) = (33, 30, 0) \<and>
   (33::real) = real_of_int \<lfloor>\<bar>- 33.5 :: real\<bar>\<rfloor> \<and> (0::real) \<le> 33 \<and>
   (0::real) \<le> 30 \<and> (30::real) < 60 \<and> (0::real) \<le> 0 \<and> (0::real) < 60"
proof -
  have h: "decimal_to_dms (- 33.5) = (33, 30, 0)"
    by (simp add: decimal_to_dms_def Let_def py_int_def)
  from decimal_to_dms_ranges [OF h] h show ?thesis
    by blast
qed

text \<open>
  Claim C4: the codec does not depend on the sign of its input,
  \<^verbatim>\<open>decimal_to_dms(-x)\<close> equals \<^verbatim>\<open>decimal_to_dms(x)\<close>; the sign is not applied to
  the degrees, which are never negative.
\<close>

theorem decimal_to_dms_sign_independent:
  "decimal_to_dms (- x) = decimal_to_dms x \<and> 0 \<le> fst (decimal_to_dms x)"
  by (simp add: decimal_to_dms_frac)

section \<open>Properties of the emitter's GPS tags\<close>

text \<open>
  Claim C5: for every sample point the latitude reference written is \<open>N\<close> when
  \<open>lat \<ge> 0\<close> and \<open>S\<close> otherwise, the longitude reference is \<open>E\<close> when \<open>lon \<ge> 0\<close> and
  \<open>W\<close> otherwise, next to the codec's triples of the two coordinates; the point at
  latitude -33.5, longitude 151.2 gets \<open>S\<close> and \<open>E\<close>, and neither triple has a negative
  component.
\<close>

theorem create_image_hemisphere_refs:
  "gps_latitude_ref (create_image lat lon exif_img) = Some (if lat \<ge> 0 then ''N'' else ''S'') \<and>
   gps_longitude_ref (create_image lat lon exif_img) = Some (if lon \<ge> 0 then ''E'' else ''W'') \<and>
   gps_latitude (create_image lat lon exif_img) = Some (decimal_to_dms lat) \<and>
   gps_longitude (create_image lat lon exif_img) = Some (decimal_to_dms lon) \<and>
   gps_latitude_ref (create_image (- 33.5) 151.2 exif_img) = Some ''S'' \<and>
   gps_longitude_ref (create_image (- 33.5) 151.2 exif_img) = Some ''E'' \<and>
   (case decimal_to_dms (- 33.5) of (degrees, minutes, seconds) \<Rightarrow>
      0 \<le> degrees \<and> 0 \<le> minutes \<and> 0 \<le> seconds) \<and>
   (case decimal_to_dms 151.2 of (degrees, minutes, seconds) \<Rightarrow>
      0 \<le> degrees \<and> 0 \<le> minutes \<and> 0 \<le> seconds)"
proof -
  have refs: "gps_latitude_ref (create_image lat lon exif_img) =
        Some (if lat \<ge> 0 then ''N'' else ''S'')"
      "gps_longitude_ref (create_image lat lon exif_img) =
        Some (if lon \<ge> 0 then ''E'' else ''W'')"
    by (simp_all add: create_image_def)
  have tags: "gps_latitude (create_image lat lon exif_img) = Some (decimal_to_dms lat)"
      "gps_longitude (create_image lat lon exif_img) = Some (decimal_to_dms lon)"
    by (simp_all add: create_image_def)
  have south: "gps_latitude_ref (create_image (- 33.5) 151.2 exif_img) = Some ''S''"
    by (simp add: create_image_def)
  have east: "gps_longitude_ref (create_image (- 33.5) 151.2 exif_img) = Some ''E''"
    by (simp add: create_image_def)
  from refs tags south east decimal_to_dms_nonneg [of "- 33.5"] decimal_to_dms_nonneg [of "151.2"]
  show ?thesis
    by blast
qed

section \<open>Properties of the grid sampler\<close>

subsection \<open>What the loop guards alone give\<close>

text \<open>
  A point is appended only after both guards have been tested on its own coordinates.
  The two lemmas are partial-correctness facts (about a loop that returns), proved by
  the fixed-point induction of the loops; they hold for every type of number, whatever
  its addition does.
\<close>

lemma lon_loop_guard:
  assumes "lon_loop lon_max lon_step lat lon cs = Some cs'"
  shows "\<forall>p \<in> set cs'. p \<in> set cs \<or> (fst p = lat \<and> snd p \<le> lon_max)"
  using assms
proof (induction lon_max lon_step lat lon cs cs'
    rule: lon_loop.raw_induct [rotated 1, consumes 1])
  case (1 f lon_max lon_step lat lon cs cs')
  show ?case
  proof (cases "lon \<le> lon_max")
    case True
    with 1(2) have "f lon_max lon_step lat (lon + lon_step) (cs @ [(lat, lon)]) = Some cs'"
      by simp
    from 1(1) [OF this] True show ?thesis
      by auto
  next
    case False
    with 1(2) show ?thesis by simp
  qed
qed

lemma lat_loop_guard:
  assumes "lat_loop lat_max lon_min lon_max lat_step lon_step lat cs = Some cs'"
  shows "\<forall>p \<in> set cs'. p \<in> set cs \<or> (fst p \<le> lat_max \<and> snd p \<le> lon_max)"
  using assms
proof (induction lat_max lon_min lon_max lat_step lon_step lat cs cs'
    rule: lat_loop.raw_induct [rotated 1, consumes 1])
  case (1 f lat_max lon_min lon_max lat_step lon_step lat cs cs')
  show ?case
  proof (cases "lat \<le> lat_max")
    case True
    with 1(2) obtain row where
      row: "lon_loop lon_max lon_step lat lon_min cs = Some row" and
      rest: "f lat_max lon_min lon_max lat_step lon_step (lat + lat_step) row = Some cs'"
      by (auto simp: bind_eq_Some_conv)
    from 1(1) [OF rest] lon_loop_guard [OF row] True show ?thesis
      by fastforce
  next
    case False
    with 1(2) show ?thesis by simp
  qed
qed

subsection \<open>The loops against the closed form\<close>









subsection \<open>Loops that never return\<close>

text \<open>
  A loop whose guard holds and whose step is not positive never returns: in the model,
  it does not evaluate to \<open>Some\<close>.
\<close>

lemma lon_loop_Some_step:
  assumes "lon_loop lon_max lon_step lat lon cs = Some cs'"
  shows "\<not> (lon_step \<le> 0 \<and> lon \<le> (lon_max :: real))"
  using assms
proof (induction lon_max lon_step lat lon cs cs'
    rule: lon_loop.raw_induct [rotated 1, consumes 1])
  case (1 f lon_max lon_step lat lon cs cs')
  show ?case
  proof
    assume a: "lon_step \<le> 0 \<and> lon \<le> lon_max"
    with 1(2) have "f lon_max lon_step lat (lon + lon_step) (cs @ [(lat, lon)]) = Some cs'"
      by simp
    from 1(1) [OF this] a show False
      by simp
  qed
qed

lemma lat_loop_Some_step:
  assumes "lat_loop lat_max lon_min lon_max lat_step lon_step lat cs = Some cs'"
  shows "\<not> (lat_step \<le> 0 \<and> lat \<le> (lat_max :: real))"
  using assms
proof (induction lat_max lon_min lon_max lat_step lon_step lat cs cs'
    rule: lat_loop.raw_induct [rotated 1, consumes 1])
  case (1 f lat_max lon_min lon_max lat_step lon_step lat cs cs')
  show ?case
  proof
    assume a: "lat_step \<le> 0 \<and> lat \<le> lat_max"
    with 1(2) obtain row where
      "f lat_max lon_min lon_max lat_step lon_step (lat + lat_step) row = Some cs'"
      by (auto simp: bind_eq_Some_conv)
    from 1(1) [OF this] a show False
      by simp
  qed
qed

lemma lon_loop_None:
  "lon_step \<le> 0 \<Longrightarrow> lon \<le> (lon_max :: real) \<Longrightarrow>
     lon_loop lon_max lon_step lat lon cs = None"
  using lon_loop_Some_step [of lon_max lon_step lat lon cs]
  by (cases "lon_loop lon_max lon_step lat lon cs") auto

lemma lat_loop_None:
  "lat_step \<le> 0 \<Longrightarrow> lat \<le> (lat_max :: real) \<Longrightarrow>
     lat_loop lat_max lon_min lon_max lat_step lon_step lat cs = None"
  using lat_loop_Some_step [of lat_max lon_min lon_max lat_step lon_step lat cs]
  by (cases "lat_loop lat_max lon_min lon_max lat_step lon_step lat cs") auto


subsection \<open>The sampler as a whole\<close>


lemma generate_coordinates_Inr:
  "generate_coordinates lat_min lat_max lon_min lon_max step_km = Some (Inr cs) \<longleftrightarrow>
     111 * cos (radians lat_min) \<noteq> 0 \<and>
     lat_loop lat_max lon_min lon_max (step_km / 111)
       (step_km / (111 * cos (radians lat_min))) lat_min [] = Some cs"
  by (auto simp: generate_coordinates_def Let_def)




lemma generate_coordinates_within:
  assumes "generate_coordinates lat_min lat_max lon_min lon_max step_km = Some (Inr cs)"
    and "p \<in> set cs"
  shows "fst p \<le> lat_max \<and> snd p \<le> lon_max"
  using assms lat_loop_guard [of lat_max lon_min lon_max _ _ lat_min "[]" cs]
  by (auto simp: generate_coordinates_Inr)








lemma cos_radians_60: "cos (radians 60) = 1 / 2"
  by (simp add: radians_def cos_60)

text \<open>
  The sampler on the box of latitudes 60 to 60.02 and longitudes -74 to -73.98 with a
  step of 1 km: the latitude step is 1/111, the longitude step 2/111, and the loops run
  three rows of two points.
\<close>

lemma sample_box_60: "generate_coordinates 60 60.02 (- 74) (- 73.98) 1 =
    Some (Inr [(60, - 74), (60, - 74 + 2 / 111),
               (60 + 1 / 111, - 74), (60 + 1 / 111, - 74 + 2 / 111),
               (60 + 2 / 111, - 74), (60 + 2 / 111, - 74 + 2 / 111)])"
  by (simp add: generate_coordinates_def Let_def cos_radians_60 lat_loop.simps lon_loop.simps)

subsection \<open>The claims about the sampler\<close>





text \<open>
  Claim C8, as stated: for some box with \<open>lat_min \<le> lat_max\<close>, \<open>lon_min \<le> lon_max\<close> and
  a positive step the sampler returns a point whose latitude lies strictly above
  \<open>lat_max\<close>. There is no such box: the guard \<^verbatim>\<open>lat <= lat_max\<close> is tested on the very
  latitude that the row then appends.
\<close>

theorem overshoot_above_lat_max_counterexample:
  "\<not> (\<exists>lat_min lat_max lon_min lon_max step_km cs p.
        lat_min \<le> lat_max \<and> lon_min \<le> lon_max \<and> 0 < step_km \<and>
        generate_coordinates lat_min lat_max lon_min lon_max step_km = Some (Inr cs) \<and>
        p \<in> set cs \<and> lat_max < fst p)"
  using generate_coordinates_within by fastforce

text \<open>
  Claim C8, amended: for every box and step, every point that the sampler returns has
  a latitude of at most \<open>lat_max\<close> and a longitude of at most \<open>lon_max\<close>; the last row
  lies on \<open>lat_max\<close> or below it, never above.
\<close>

theorem generate_coordinates_within_bounds:
  assumes "generate_coordinates lat_min lat_max lon_min lon_max step_km = Some (Inr cs)"
    and "p \<in> set cs"
  shows "fst p \<le> lat_max \<and> snd p \<le> lon_max"
  using assms by (rule generate_coordinates_within)

theorem generate_coordinates_within_bounds_witness:
  "generate_coordinates 60 60.02 (- 74) (- 73.98) 1 =
     Some (Inr [(60, - 74), (60, - 74 + 2 / 111),
      (60 + 1 / 111, - 74), (60 + 1 / 111, - 74 + 2 / 111),
      (60 + 2 / 111, - 74), (60 + 2 / 111, - 74 + 2 / 111)]) \<and>
   (60 + 2 / 111, - 74 + 2 / 111) \<in> set [(60, - 74), (60, - 74 + 2 / 111),
      (60 + 1 / 111, - 74), (60 + 1 / 111, - 74 + 2 / 111),
      (60 + 2 / 111, - 74), (60 + 2 / 111, - 74 + 2 / 111)] \<and>
   fst (60 + 2 / 111 :: real, - 74 + 2 / 111 :: real) \<le> 60.02 \<and>
   snd (60 + 2 / 111 :: real, - 74 + 2 / 111 :: real) \<le> - 73.98"
  using generate_coordinates_within_bounds
    [OF sample_box_60, of "(60 + 2 / 111, - 74 + 2 / 111)"] sample_box_60
  by simp







end
